theory Spec2Isabelle
  imports Complex_Main
begin

section \<open>JavaScript values\<close>

text \<open>
  The values the class meets. A finite number is the real it stands for (a real that is not
  a double stands for the double nearest to it, and the two zeros are one value); the
  three numbers that are not finite are values of their own. Strings are lists of
  characters. An array or a plain object nested in an option value is never mutated by the
  class, so it is a value: the list of its elements, or of its own enumerable properties
  in their order, its prototype being the one it was created with. \<open>Function\<close> and
  \<open>Native_object\<close> are the functions and objects the platform defines, known by
  name. The option mappings themselves live in a store and are handled by reference (see
  below).
\<close>

datatype jsval =
    Undefined
  | Null
  | Boolean bool
  | Number real
  | NaN
  | Infinity
  | Negative_infinity
  | Str string
  | Array "jsval list"
  | Object "(string \<times> jsval) list"
  | Function string
  | Native_object string

text \<open>
  Modelled from the spec: the type-name constants \<open>F, O, B, N, S\<close> of the
  \<open>@lumjs/core\<close> package (\<open>core.types\<close>) are not part of the sources; they
  are the strings that \<open>typeof\<close> returns.
\<close>

definition F_type :: string where "F_type = ''function''"
definition O_type :: string where "O_type = ''object''"
definition B_type :: string where "B_type = ''boolean''"
definition N_type :: string where "N_type = ''number''"
definition S_type :: string where "S_type = ''string''"

fun typeof :: "jsval \<Rightarrow> string" where
  "typeof Undefined = ''undefined''"
| "typeof Null = ''object''"
| "typeof (Boolean b) = ''boolean''"
| "typeof (Number x) = ''number''"
| "typeof NaN = ''number''"
| "typeof Infinity = ''number''"
| "typeof Negative_infinity = ''number''"
| "typeof (Str s) = ''string''"
| "typeof (Array xs) = ''object''"
| "typeof (Object ps) = ''object''"
| "typeof (Function f) = ''function''"
| "typeof (Native_object n) = ''object''"

section \<open>The platform\<close>

text \<open>
  A regular expression object is known by what \<open>match\<close> and \<open>split\<close> do with
  it.
\<close>

record regexp =
  rx_match :: "string \<Rightarrow> bool"
  rx_split :: "string \<Rightarrow> string list"

text \<open>
  The built-ins the class calls and does not define: \<open>JSON.parse\<close> and
  \<open>decodeURI\<close> (\<open>None\<close> when they throw), \<open>JSON.stringify\<close>, the regular
  expression that \<open>match\<close> compiles from a string argument (a getter that is a string
  is taken to be a pattern that compiles), the text of a number that is not a safe integer
  (\<open>Number_toString\<close>), the text of a value that is neither a string nor a number
  (\<open>ToString\<close>), and the properties of the functions and objects the platform defines
  (\<open>native_get\<close>; among them the members of \<open>Array.prototype\<close>, which differ
  between the editions of the language).
\<close>

record platform =
  JSON_parse :: "string \<Rightarrow> jsval option"
  JSON_stringify :: "jsval \<Rightarrow> string"
  decodeURI :: "string \<Rightarrow> string option"
  RegExp :: "string \<Rightarrow> regexp"
  Number_toString :: "real \<Rightarrow> string"
  ToString :: "jsval \<Rightarrow> string"
  native_get :: "jsval \<Rightarrow> string \<Rightarrow> jsval"

section \<open>Numbers, strings and objects\<close>

subsection \<open>Numbers and strings as text\<close>

definition digit_char :: "nat \<Rightarrow> char" where
  "digit_char d = ''0123456789'' ! d"

fun digits :: "nat \<Rightarrow> string" where
  "digits n = (if n < 10 then [digit_char n] else digits (n div 10) @ [digit_char (n mod 10)])"

declare digits.simps [simp del]

text \<open>
  A safe integer (\<open>Number.isSafeInteger\<close>) is printed as its decimal digits, with the
  sign before them when it is negative. Every other finite number is printed by the
  platform: with a fraction, or from \<open>1e21\<close> on with an exponent, and above
  \<open>2\<^sup>5\<^sup>3\<close> with the shortest digits that read back as the same double.
\<close>

definition safe_integer :: "real \<Rightarrow> bool" where
  "safe_integer x = (x \<in> \<int> \<and> \<bar>x\<bar> < 2 ^ 53)"

definition decimal :: "real \<Rightarrow> string" where
  "decimal x = (if x < 0 then CHR ''-'' # digits (nat \<lfloor>- x\<rfloor>) else digits (nat \<lfloor>x\<rfloor>))"

definition number_to_string :: "platform \<Rightarrow> real \<Rightarrow> string" where
  "number_to_string P x = (if safe_integer x then decimal x else Number_toString P x)"

text \<open>String concatenation \<open>assign + item\<close>: the text of the value on the right.\<close>

fun to_string :: "platform \<Rightarrow> jsval \<Rightarrow> string" where
  "to_string P (Str s) = s"
| "to_string P (Number x) = number_to_string P x"
| "to_string P NaN = ''NaN''"
| "to_string P Infinity = ''Infinity''"
| "to_string P Negative_infinity = ''-Infinity''"
| "to_string P Undefined = ''undefined''"
| "to_string P Null = ''null''"
| "to_string P (Boolean b) = (if b then ''true'' else ''false'')"
| "to_string P v = ToString P v"

subsection \<open>Property names\<close>

text \<open>
  An array index is the canonical text of an integer from \<open>0\<close> to
  \<open>2\<^sup>3\<^sup>2 - 2\<close>. An object enumerates its own properties with the array indices
  first, in ascending order, and the other names after them, in the order of their
  creation.
\<close>

definition is_digit :: "char \<Rightarrow> bool" where
  "is_digit c = (c \<in> set ''0123456789'')"

definition digit_value :: "char \<Rightarrow> nat" where
  "digit_value c = of_char c - 48"

definition index_value :: "string \<Rightarrow> nat" where
  "index_value s = foldl (\<lambda>n c. 10 * n + digit_value c) 0 s"

definition is_array_index :: "string \<Rightarrow> bool" where
  "is_array_index s =
     (s \<noteq> [] \<and> list_all is_digit s \<and> (if s = ''0'' then True else hd s \<noteq> CHR ''0'')
      \<and> index_value s < 4294967295)"

subsection \<open>Plain objects\<close>

text \<open>
  The own enumerable properties of an object are the list of its names and values in
  enumeration order. \<open>obj_get\<close> reads an own property, \<open>obj_set\<close> defines one: the
  value of a name the object has is replaced where it stands, a new array index goes to
  its place among the indices, and any other new name goes to the end. \<open>obj_delete\<close>
  is \<open>delete obj[k]\<close>.
\<close>

type_synonym jsobj = "(string \<times> jsval) list"

fun has_own :: "jsobj \<Rightarrow> string \<Rightarrow> bool" where
  "has_own [] k = False"
| "has_own ((k', v) # ps) k = (if k' = k then True else has_own ps k)"

fun obj_get :: "jsobj \<Rightarrow> string \<Rightarrow> jsval" where
  "obj_get [] k = Undefined"
| "obj_get ((k', v) # ps) k = (if k' = k then v else obj_get ps k)"

fun obj_replace :: "jsobj \<Rightarrow> string \<Rightarrow> jsval \<Rightarrow> jsobj" where
  "obj_replace [] k v = []"
| "obj_replace ((k', v') # ps) k v = (if k' = k then (k, v) # ps else (k', v') # obj_replace ps k v)"

fun obj_insert_index :: "jsobj \<Rightarrow> string \<Rightarrow> jsval \<Rightarrow> jsobj" where
  "obj_insert_index [] k v = [(k, v)]"
| "obj_insert_index ((k', v') # ps) k v =
     (if is_array_index k' \<and> index_value k' < index_value k
      then (k', v') # obj_insert_index ps k v
      else (k, v) # (k', v') # ps)"

definition obj_set :: "jsobj \<Rightarrow> string \<Rightarrow> jsval \<Rightarrow> jsobj" where
  "obj_set obj k v =
     (if has_own obj k then obj_replace obj k v
      else if is_array_index k then obj_insert_index obj k v
      else obj @ [(k, v)])"

fun obj_delete :: "jsobj \<Rightarrow> string \<Rightarrow> jsobj" where
  "obj_delete [] k = []"
| "obj_delete ((k', v') # ps) k = (if k' = k then obj_delete ps k else (k', v') # obj_delete ps k)"

definition obj_keys :: "jsobj \<Rightarrow> string list" where
  "obj_keys obj = map fst obj"

subsection \<open>Prototypes\<close>

text \<open>
  An option mapping is its own properties and its prototype: \<open>Object.prototype\<close> for
  an object made by \<open>{}\<close>, nothing after \<open>null\<close> has been assigned to
  \<open>__proto__\<close>, or the object that has been assigned to it.
\<close>

datatype proto = Object_prototype | Null_prototype | Value_prototype jsval

text \<open>The function-valued members of \<open>Object.prototype\<close>; its one other member is
  the accessor \<open>__proto__\<close>.\<close>

definition Object_prototype_functions :: "string list" where
  "Object_prototype_functions =
     [''constructor'', ''__defineGetter__'', ''__defineSetter__'', ''hasOwnProperty'',
      ''__lookupGetter__'', ''__lookupSetter__'', ''isPrototypeOf'', ''propertyIsEnumerable'',
      ''toString'', ''valueOf'', ''toLocaleString'']"

definition object_prototype_get :: "string \<Rightarrow> jsval" where
  "object_prototype_get name =
     (if name \<in> set Object_prototype_functions then Function (''Object.prototype.'' @ name)
      else Undefined)"

fun is_object :: "jsval \<Rightarrow> bool" where
  "is_object (Array xs) = True"
| "is_object (Object ps) = True"
| "is_object (Function f) = True"
| "is_object (Native_object n) = True"
| "is_object v = False"

text \<open>
  Whether the name \<open>__proto__\<close>, looked up from the prototype on, is the accessor of
  \<open>Object.prototype\<close>: not without a prototype, and not when the prototype is a parsed
  object with a property of that name of its own.
\<close>

fun has_proto_accessor :: "proto \<Rightarrow> bool" where
  "has_proto_accessor Object_prototype = True"
| "has_proto_accessor Null_prototype = False"
| "has_proto_accessor (Value_prototype (Object ps)) = (if has_own ps ''__proto__'' then False else True)"
| "has_proto_accessor (Value_prototype v) = True"

fun proto_value :: "proto \<Rightarrow> jsval" where
  "proto_value Object_prototype = Native_object ''Object.prototype''"
| "proto_value Null_prototype = Null"
| "proto_value (Value_prototype v) = v"

text \<open>
  \<open>obj[k] = v\<close>. A property of the object itself is overwritten. Otherwise the name
  \<open>__proto__\<close> reaches the accessor, which makes an object or \<open>null\<close> the new
  prototype, ignores any other value, and creates no property. Every other assignment
  defines a property of the object itself.
\<close>

definition put :: "jsobj \<times> proto \<Rightarrow> string \<Rightarrow> jsval \<Rightarrow> jsobj \<times> proto" where
  "put obj k v =
     (if k = ''__proto__'' \<and> (if has_own (fst obj) k then False else has_proto_accessor (snd obj))
      then (if v = Null then (fst obj, Null_prototype)
            else if is_object v then (fst obj, Value_prototype v)
            else obj)
      else (obj_set (fst obj) k v, snd obj))"

text \<open>
  \<open>obj[name]\<close>: a property of the object itself, or else what the prototype chain
  gives. An array as prototype gives its elements, its length, and what
  \<open>Array.prototype\<close> and \<open>Object.prototype\<close> define.
\<close>

definition array_get :: "platform \<Rightarrow> jsval list \<Rightarrow> string \<Rightarrow> jsval" where
  "array_get P xs name =
     (if is_array_index name \<and> index_value name < length xs then xs ! index_value name
      else if name = ''length'' then Number (real (length xs))
      else (case native_get P (Native_object ''Array.prototype'') name of
              Undefined \<Rightarrow> object_prototype_get name
            | v \<Rightarrow> v))"

fun inherited_get :: "platform \<Rightarrow> proto \<Rightarrow> string \<Rightarrow> jsval" where
  "inherited_get P Object_prototype name = object_prototype_get name"
| "inherited_get P Null_prototype name = Undefined"
| "inherited_get P (Value_prototype (Object ps)) name =
     (if has_own ps name then obj_get ps name else object_prototype_get name)"
| "inherited_get P (Value_prototype (Array xs)) name = array_get P xs name"
| "inherited_get P (Value_prototype v) name = native_get P v name"

definition get :: "platform \<Rightarrow> jsobj \<times> proto \<Rightarrow> string \<Rightarrow> jsval" where
  "get P obj name =
     (if has_own (fst obj) name then obj_get (fst obj) name
      else if name = ''__proto__'' \<and> has_proto_accessor (snd obj) then proto_value (snd obj)
      else inherited_get P (snd obj) name)"

text \<open>
  \<open>for (key in obj)\<close> with \<open>obj[key]\<close>: the properties of the object itself, then
  the enumerable ones of its prototype that it does not have itself. What the platform
  defines is not enumerable.
\<close>

fun indexed :: "nat \<Rightarrow> jsval list \<Rightarrow> jsobj" where
  "indexed i [] = []"
| "indexed i (x # xs) = (digits i, x) # indexed (Suc i) xs"

fun inherited_entries :: "proto \<Rightarrow> jsobj" where
  "inherited_entries (Value_prototype (Object ps)) = ps"
| "inherited_entries (Value_prototype (Array xs)) = indexed 0 xs"
| "inherited_entries pr = []"

definition for_in :: "jsobj \<times> proto \<Rightarrow> jsobj" where
  "for_in obj = fst obj @ filter (\<lambda>(k, v). \<not> has_own (fst obj) k) (inherited_entries (snd obj))"

subsection \<open>Splitting strings\<close>

text \<open>
  \<open>String.prototype.split\<close> with a string separator: the pieces between the
  occurrences of the separator, found left to right; the empty separator splits into
  single characters.
\<close>

function split_from :: "string \<Rightarrow> string \<Rightarrow> string \<Rightarrow> string list" where
  "split_from sep cur [] = [cur]"
| "split_from sep cur (c # cs) =
     (if sep \<noteq> [] \<and> take (length sep) (c # cs) = sep
      then cur # split_from sep [] (drop (length sep) (c # cs))
      else split_from sep (cur @ [c]) cs)"
  by pat_completeness auto
termination
  by (relation "measure (\<lambda>(sep, cur, s). length s)") auto

definition split_str :: "string \<Rightarrow> string \<Rightarrow> string list" where
  "split_str sep s = (if sep = [] then map (\<lambda>c. [c]) s else split_from sep [] s)"

section \<open>The class URLHash\<close>

subsection \<open>Module constants\<close>

datatype json_regexp = JSON_ALL | JSON_ARR | JSON_OBJ

definition line_terminator :: "char \<Rightarrow> bool" where
  "line_terminator c = (c = CHR 0x0A \<or> c = CHR 0x0D)"

definition bracketed :: "char \<Rightarrow> char \<Rightarrow> string \<Rightarrow> bool" where
  "bracketed l r s =
     (2 \<le> length s \<and> hd s = l \<and> last s = r \<and> \<not> list_ex line_terminator s)"

text \<open>\<open>input.match(jc)\<close> for the three patterns
  \<^verbatim>\<open>/^(\[.*?\]|\{.*?\})$/\<close>, \<^verbatim>\<open>/^\[.*?\]$/\<close> and \<^verbatim>\<open>/^\{.*?\}$/\<close>.\<close>

fun json_match :: "json_regexp \<Rightarrow> string \<Rightarrow> bool" where
  "json_match JSON_ALL s = (bracketed CHR ''['' CHR '']'' s \<or> bracketed CHR ''{'' CHR ''}'' s)"
| "json_match JSON_ARR s = bracketed CHR ''['' CHR '']'' s"
| "json_match JSON_OBJ s = bracketed CHR ''{'' CHR ''}'' s"

subsection \<open>Fields\<close>

datatype matcher = Lit string | Rx regexp

record getters =
  g_separate :: matcher
  g_assign :: matcher
  g_true :: "matcher option"
  g_false :: "matcher option"

record setters =
  s_separate :: string
  s_assign :: string
  s_true :: "string option"
  s_false :: "string option"

type_synonym ref = nat

text \<open>
  The state is the instance (\<open>shortOpt\<close>, \<open>autoArray\<close> and the fields the source
  writes with a leading underscore, here with the prefix \<open>p_\<close>), the store of the
  option mappings (the own properties and the prototype of each), and the fragment behind \<open>_getHash\<close> and \<open>_setHash\<close>:
  \<open>fragment\<close> is what the source returns, \<open>committed\<close> lists the strings the
  sink has received, oldest first. \<open>p_lastHash\<close> and \<open>p_lastOpts\<close> are
  \<open>None\<close> while the instance has not assigned them. What the methods write to the
  console is not part of the state.
\<close>

record state =
  shortOpt :: bool
  autoArray :: bool
  p_json :: "json_regexp option"
  p_getters :: getters
  p_setters :: setters
  p_lastHash :: "string option"
  p_lastOpts :: "ref option"
  store :: "ref \<Rightarrow> jsobj"
  prototype :: "ref \<Rightarrow> proto"
  next_ref :: ref
  fragment :: string
  committed :: "string list"

text \<open>\<open>this.json\<close>: no constructor or method assigns a property of this name, so
  reading it yields \<open>undefined\<close>.\<close>

definition json :: "state \<Rightarrow> json_regexp option" where
  "json this = None"

definition getHash :: "state \<Rightarrow> string" where
  "getHash this = fragment this"

definition setHash :: "string \<Rightarrow> state \<Rightarrow> state" where
  "setHash newhash this = this\<lparr>fragment := newhash, committed := committed this @ [newhash]\<rparr>"

text \<open>A mapping enters the store when it is returned or cached; until then it is a
  local value. \<open>new_object\<close> stores an object made by \<open>{}\<close>.\<close>

definition store_object :: "jsobj \<times> proto \<Rightarrow> state \<Rightarrow> ref \<times> state" where
  "store_object obj this =
     (next_ref this,
      this\<lparr>store := (store this)(next_ref this := fst obj),
           prototype := (prototype this)(next_ref this := snd obj),
           next_ref := Suc (next_ref this)\<rparr>)"

definition new_object :: "jsobj \<Rightarrow> state \<Rightarrow> ref \<times> state" where
  "new_object obj this = store_object (obj, Object_prototype) this"

text \<open>
  Modelled from the spec: \<open>clone\<close> of \<open>@lumjs/core\<close> is not part of the
  sources; it is the general object-copy utility that seeds the default option values,
  and yields a new plain object with the properties of its argument.
\<close>

definition clone :: "jsobj \<Rightarrow> jsobj" where
  "clone obj = obj"

datatype error = Error string | TypeError string

subsection \<open>useJson, setGetter, setSetter and the constructor\<close>

datatype json_opt = JFalse | JTrue | JString string | JOther

definition useJson :: "json_opt \<Rightarrow> state \<Rightarrow> error + state" where
  "useJson v this =
     (if v = JFalse then Inr (this\<lparr>p_json := None\<rparr>)
      else if v = JTrue then Inr (this\<lparr>p_json := Some JSON_ALL\<rparr>)
      else if v = JString ''array'' then Inr (this\<lparr>p_json := Some JSON_ARR\<rparr>)
      else if v = JString O_type then Inr (this\<lparr>p_json := Some JSON_OBJ\<rparr>)
      else Inl (Error ''Invalid value passed to useJson()''))"

definition serializeJsonArray :: "state \<Rightarrow> bool" where
  "serializeJsonArray this = (p_json this = Some JSON_ARR \<or> p_json this = Some JSON_ALL)"

definition serializeJsonObject :: "state \<Rightarrow> bool" where
  "serializeJsonObject this = (p_json this = Some JSON_OBJ \<or> json this = Some JSON_ALL)"

definition apostrophe :: string where
  "apostrophe = [CHR 0x27]"

datatype getter_value = GString string | GRegExp regexp | GFalse | GOther

definition setGetter :: "string \<Rightarrow> getter_value \<Rightarrow> state \<Rightarrow> error + state" where
  "setGetter name v this =
     (if name = ''true'' \<or> name = ''false'' then
        (case v of
           GString s \<Rightarrow> Inr (this\<lparr>p_getters :=
             (if name = ''true'' then (p_getters this)\<lparr>g_true := Some (Lit s)\<rparr>
              else (p_getters this)\<lparr>g_false := Some (Lit s)\<rparr>)\<rparr>)
         | GRegExp r \<Rightarrow> Inr (this\<lparr>p_getters :=
             (if name = ''true'' then (p_getters this)\<lparr>g_true := Some (Rx r)\<rparr>
              else (p_getters this)\<lparr>g_false := Some (Rx r)\<rparr>)\<rparr>)
         | GFalse \<Rightarrow> Inr (this\<lparr>p_getters :=
             (if name = ''true'' then (p_getters this)\<lparr>g_true := None\<rparr>
              else (p_getters this)\<lparr>g_false := None\<rparr>)\<rparr>)
         | GOther \<Rightarrow> Inl (Error (''Invalid '' @ apostrophe @ name @ apostrophe @ '' value passed to setGetter()'')))
      else if name = ''separate'' \<or> name = ''assign'' then
        (case v of
           GString s \<Rightarrow> Inr (this\<lparr>p_getters :=
             (if name = ''separate'' then (p_getters this)\<lparr>g_separate := Lit s\<rparr>
              else (p_getters this)\<lparr>g_assign := Lit s\<rparr>)\<rparr>)
         | GRegExp r \<Rightarrow> Inr (this\<lparr>p_getters :=
             (if name = ''separate'' then (p_getters this)\<lparr>g_separate := Rx r\<rparr>
              else (p_getters this)\<lparr>g_assign := Rx r\<rparr>)\<rparr>)
         | _ \<Rightarrow> Inl (Error (''Invalid '' @ apostrophe @ name @ apostrophe @ '' value passed to setGetter()'')))
      else Inl (Error (''Unknown getter name '' @ apostrophe @ name @ apostrophe @ '' passed to setGetter()'')))"

datatype setter_value = SString string | SFalse | SOther

definition setSetter :: "string \<Rightarrow> setter_value \<Rightarrow> state \<Rightarrow> error + state" where
  "setSetter name v this =
     (if name = ''true'' \<or> name = ''false'' then
        (case v of
           SString s \<Rightarrow> Inr (this\<lparr>p_setters :=
             (if name = ''true'' then (p_setters this)\<lparr>s_true := Some s\<rparr>
              else (p_setters this)\<lparr>s_false := Some s\<rparr>)\<rparr>)
         | SFalse \<Rightarrow> Inr (this\<lparr>p_setters :=
             (if name = ''true'' then (p_setters this)\<lparr>s_true := None\<rparr>
              else (p_setters this)\<lparr>s_false := None\<rparr>)\<rparr>)
         | SOther \<Rightarrow> Inl (Error (''Invalid '' @ apostrophe @ name @ apostrophe @ '' value passed to setSetter()'')))
      else if name = ''separate'' \<or> name = ''assign'' then
        (case v of
           SString s \<Rightarrow> Inr (this\<lparr>p_setters :=
             (if name = ''separate'' then (p_setters this)\<lparr>s_separate := s\<rparr>
              else (p_setters this)\<lparr>s_assign := s\<rparr>)\<rparr>)
         | _ \<Rightarrow> Inl (Error (''Invalid '' @ apostrophe @ name @ apostrophe @ '' value passed to setSetter()'')))
      else Inl (Error (''Unknown setter name '' @ apostrophe @ name @ apostrophe @ '' passed to setSetter()'')))"

fun setGetters :: "(string \<times> getter_value) list \<Rightarrow> state \<Rightarrow> error + state" where
  "setGetters [] this = Inr this"
| "setGetters ((key, val) # obj) this =
     (case setGetter key val this of Inl e \<Rightarrow> Inl e | Inr this' \<Rightarrow> setGetters obj this')"

fun setSetters :: "(string \<times> setter_value) list \<Rightarrow> state \<Rightarrow> error + state" where
  "setSetters [] this = Inr this"
| "setSetters ((key, val) # obj) this =
     (case setSetter key val this of Inl e \<Rightarrow> Inl e | Inr this' \<Rightarrow> setSetters obj this')"

text \<open>The patterns \<^verbatim>\<open>/^(true|yes)$/i\<close> and \<^verbatim>\<open>/^(false|no)$/i\<close>.\<close>

definition lower :: "char \<Rightarrow> char" where
  "lower c =
     (let n = (of_char c :: nat) in if 65 \<le> n \<and> n \<le> 90 then char_of (n + 32) else c)"

definition true_yes :: regexp where
  "true_yes = \<lparr>rx_match = (\<lambda>s. map lower s = ''true'' \<or> map lower s = ''yes''),
               rx_split = (\<lambda>s. [s])\<rparr>"

definition false_no :: regexp where
  "false_no = \<lparr>rx_match = (\<lambda>s. map lower s = ''false'' \<or> map lower s = ''no''),
               rx_split = (\<lambda>s. [s])\<rparr>"

definition default_getters :: getters where
  "default_getters =
     \<lparr>g_separate = Lit '';'', g_assign = Lit ''='',
      g_true = Some (Rx true_yes), g_false = Some (Rx false_no)\<rparr>"

definition default_setters :: setters where
  "default_setters =
     \<lparr>s_separate = '';'', s_assign = ''='', s_true = Some ''true'', s_false = Some ''false''\<rparr>"

text \<open>
  The options of the constructor; \<open>None\<close> is an absent property. The instance starts
  with an empty store, and \<open>location\<close> is the fragment the source returns at first.
\<close>

record options =
  o_shortOpt :: "bool option"
  o_autoArray :: "bool option"
  o_json :: "json_opt option"
  o_getters :: "(string \<times> getter_value) list option"
  o_setters :: "(string \<times> setter_value) list option"

definition no_options :: options where
  "no_options =
     \<lparr>o_shortOpt = None, o_autoArray = None, o_json = None, o_getters = None, o_setters = None\<rparr>"

definition constructor :: "options \<Rightarrow> string \<Rightarrow> error + state" where
  "constructor opts location =
     (let this0 =
            \<lparr>shortOpt = (case o_shortOpt opts of Some b \<Rightarrow> b | None \<Rightarrow> False),
             autoArray = (case o_autoArray opts of Some b \<Rightarrow> b | None \<Rightarrow> True),
             p_json = None,
             p_getters = default_getters,
             p_setters = default_setters,
             p_lastHash = None,
             p_lastOpts = None,
             store = (\<lambda>r. []),
             prototype = (\<lambda>r. Object_prototype),
             next_ref = 0,
             fragment = location,
             committed = []\<rparr>
      in case (case o_json opts of Some v \<Rightarrow> useJson v this0 | None \<Rightarrow> Inr this0) of
           Inl e \<Rightarrow> Inl e
         | Inr this1 \<Rightarrow>
             (case (case o_getters opts of Some g \<Rightarrow> setGetters g this1 | None \<Rightarrow> Inr this1) of
                Inl e \<Rightarrow> Inl e
              | Inr this2 \<Rightarrow>
                  (case o_setters opts of Some s \<Rightarrow> setSetters s this2 | None \<Rightarrow> Inr this2)))"

subsection \<open>getOpts and getOpt\<close>

text \<open>The argument of \<open>getOpts\<close> and \<open>getOpt\<close>; \<open>None\<close> is an absent
  property, and an absent \<open>default\<close> is \<open>Undefined\<close>.\<close>

record getopts =
  go_defaults :: "jsobj option"
  go_hash :: "string option"
  go_shortOpt :: "bool option"
  go_default :: jsval

definition no_getopts :: getopts where
  "no_getopts = \<lparr>go_defaults = None, go_hash = None, go_shortOpt = None, go_default = Undefined\<rparr>"

text \<open>\<open>tv && input.match(tv)\<close>: \<open>false\<close> and the empty string switch the matcher
  off, a string is compiled to a regular expression.\<close>

definition matches :: "platform \<Rightarrow> matcher option \<Rightarrow> string \<Rightarrow> bool" where
  "matches P m input =
     (case m of
        None \<Rightarrow> False
      | Some (Lit s) \<Rightarrow> s \<noteq> [] \<and> rx_match (RegExp P s) input
      | Some (Rx r) \<Rightarrow> rx_match r input)"

definition split :: "matcher \<Rightarrow> string \<Rightarrow> string list" where
  "split m s = (case m of Lit sep \<Rightarrow> split_str sep s | Rx r \<Rightarrow> rx_split r s)"

definition getVal :: "platform \<Rightarrow> state \<Rightarrow> string \<Rightarrow> jsval" where
  "getVal P this input =
     (if (case p_json this of None \<Rightarrow> False | Some jc \<Rightarrow> json_match jc input) then
        (case decodeURI P input of
           None \<Rightarrow> Undefined
         | Some decoded \<Rightarrow> (case JSON_parse P decoded of None \<Rightarrow> Undefined | Some output \<Rightarrow> output))
      else if matches P (g_true (p_getters this)) input then Boolean True
      else if matches P (g_false (p_getters this)) input then Boolean False
      else Str input)"

text \<open>The body of the loop over the segments. A split that yields no piece at all leaves
  \<open>assignment[0]\<close> undefined, which names the property \<open>undefined\<close>.\<close>

definition parse_segment ::
  "platform \<Rightarrow> state \<Rightarrow> string \<Rightarrow> jsobj \<times> proto \<Rightarrow> jsobj \<times> proto" where
  "parse_segment P this segment hashOpts =
     (let assignment = split (g_assign (p_getters this)) segment in
      if length assignment = 1 then put hashOpts segment Null
      else if length assignment = 2 then
        put hashOpts (assignment ! 0) (getVal P this (assignment ! 1))
      else
        put hashOpts (case assignment of [] \<Rightarrow> ''undefined'' | name # rest \<Rightarrow> name)
          (Array (map Str (drop 1 assignment))))"

fun parse_segments ::
  "platform \<Rightarrow> state \<Rightarrow> string list \<Rightarrow> jsobj \<times> proto \<Rightarrow> jsobj \<times> proto" where
  "parse_segments P this [] hashOpts = hashOpts"
| "parse_segments P this (segment # segments) hashOpts =
     parse_segments P this segments (parse_segment P this segment hashOpts)"

definition getOpts :: "platform \<Rightarrow> getopts \<Rightarrow> state \<Rightarrow> ref \<times> state" where
  "getOpts P getOpts' this =
     (let hashOpts = (case go_defaults getOpts' of
                        Some d \<Rightarrow> (clone d, Object_prototype)
                      | None \<Rightarrow> ([], Object_prototype));
          hash = (case go_hash getOpts' of Some h \<Rightarrow> h | None \<Rightarrow> getHash this)
      in
      if hash \<noteq> [] \<and> hash \<noteq> ''#'' then
        (if (case p_lastHash this of Some lastHash \<Rightarrow> lastHash \<noteq> [] | None \<Rightarrow> False)
            \<and> p_lastOpts this \<noteq> None \<and> p_lastHash this = Some hash
         then (the (p_lastOpts this), this)
         else
           (let this1 = this\<lparr>p_lastHash := Some hash\<rparr>;
                hash1 = (if take 1 hash = ''#'' then drop 1 hash else hash);
                segments = split (g_separate (p_getters this1)) hash1;
                (r, this2) = store_object (parse_segments P this1 segments hashOpts) this1
            in (r, this2\<lparr>p_lastOpts := Some r\<rparr>)))
      else store_object hashOpts this)"

text \<open>\<open>hashOpts[name]\<close> is read through the prototype chain; \<open>Object.keys\<close> lists
  the properties of the object itself.\<close>

definition getOpt :: "platform \<Rightarrow> string \<Rightarrow> getopts \<Rightarrow> state \<Rightarrow> jsval \<times> state" where
  "getOpt P name getOpts' this =
     (let shortOpt' = (case go_shortOpt getOpts' of Some b \<Rightarrow> b | None \<Rightarrow> shortOpt this);
          (r, this') = getOpts P getOpts' this;
          hashOpts = (store this' r, prototype this' r)
      in
      if get P hashOpts name \<noteq> Undefined then (get P hashOpts name, this')
      else
        (let keys = obj_keys (fst hashOpts) in
         if shortOpt' \<and> length keys = 1 \<and> get P hashOpts (keys ! 0) = Null
         then (Str (keys ! 0), this')
         else (go_default getOpts', this')))"

subsection \<open>serialize\<close>

record setopts =
  so_autoArray :: "bool option"

definition no_setopts :: setopts where
  "no_setopts = \<lparr>so_autoArray = None\<rparr>"

fun serializeArray :: "platform \<Rightarrow> string \<Rightarrow> jsval list \<Rightarrow> string" where
  "serializeArray P assign [] = []"
| "serializeArray P assign (item # array) =
     (if typeof item = S_type \<or> typeof item = N_type then assign @ to_string P item else [])
       @ serializeArray P assign array"

text \<open>What one pass of the loop appends after the key, or the error it throws. The
  branch for objects tells an array (\<open>Array.isArray\<close>) from any other object.\<close>

definition serialize_value :: "platform \<Rightarrow> state \<Rightarrow> bool \<Rightarrow> jsval \<Rightarrow> error + string" where
  "serialize_value P this autoArray' val =
     (let assign = s_assign (p_setters this);
          tv = s_true (p_setters this);
          fv = s_false (p_setters this)
      in
      if val = Null then Inr []
      else if val = Boolean True \<and> tv \<noteq> None \<and> tv \<noteq> Some [] then Inr (assign @ the tv)
      else if val = Boolean False \<and> fv \<noteq> None \<and> fv \<noteq> Some [] then Inr (assign @ the fv)
      else if typeof val = O_type then
        (case val of
           Array array \<Rightarrow>
             if serializeJsonArray this then
               (if autoArray' then
                  (if list_ex (\<lambda>subval. typeof subval \<noteq> S_type \<and> typeof subval \<noteq> N_type) array
                   then Inr (assign @ JSON_stringify P val)
                   else Inr (serializeArray P assign array))
                else Inr (assign @ JSON_stringify P val))
             else Inr (serializeArray P assign array)
         | _ \<Rightarrow>
             if serializeJsonObject this then Inr (assign @ JSON_stringify P val)
             else Inl (Error ''Cannot serialize object when JSON is disabled''))
      else if typeof val = S_type \<or> typeof val = N_type then Inr (assign @ to_string P val)
      else Inl (TypeError ''Invalid valid type passed to serialize()''))"

fun serialize_loop ::
  "platform \<Rightarrow> state \<Rightarrow> bool \<Rightarrow> jsobj \<Rightarrow> string \<Rightarrow> bool \<Rightarrow> error + string" where
  "serialize_loop P this autoArray' [] hashString doneFirst = Inr hashString"
| "serialize_loop P this autoArray' ((key, val) # obj) hashString doneFirst =
     (case serialize_value P this autoArray' val of
        Inl e \<Rightarrow> Inl e
      | Inr text \<Rightarrow>
          serialize_loop P this autoArray' obj
            ((if doneFirst then hashString @ s_separate (p_setters this) else hashString)
               @ key @ text)
            True)"

text \<open>\<open>obj\<close> is what \<open>for (key in obj)\<close> visits: the names in their order,
  each with \<open>obj[key]\<close>.\<close>

definition serialize :: "platform \<Rightarrow> jsobj \<Rightarrow> setopts \<Rightarrow> state \<Rightarrow> error + string" where
  "serialize P obj setOpts this =
     (let autoArray' = (case so_autoArray setOpts of Some b \<Rightarrow> b | None \<Rightarrow> autoArray this)
      in serialize_loop P this autoArray' obj ''#'' False)"

subsection \<open>replace, update and delete\<close>

text \<open>A method that throws leaves the state as it is at the throw; the sum tells whether
  it threw.\<close>

definition replace :: "platform \<Rightarrow> ref \<Rightarrow> setopts \<Rightarrow> state \<Rightarrow> (error + unit) \<times> state" where
  "replace P reps setOpts this =
     (case serialize P (for_in (store this reps, prototype this reps)) setOpts this of
        Inl e \<Rightarrow> (Inl e, this)
      | Inr newstring \<Rightarrow>
          (Inr (), setHash newstring (this\<lparr>p_lastHash := Some newstring, p_lastOpts := Some reps\<rparr>)))"

text \<open>The loop of \<open>update\<close> over what \<open>for (key in updates)\<close> visits.\<close>

fun apply_updates :: "jsobj \<Rightarrow> jsobj \<times> proto \<Rightarrow> jsobj \<times> proto" where
  "apply_updates [] current = current"
| "apply_updates ((key, val) # updates) current =
     apply_updates updates
       (if val = Undefined then (obj_delete (fst current) key, snd current)
        else put current key val)"

definition update ::
  "platform \<Rightarrow> jsobj \<Rightarrow> setopts \<Rightarrow> getopts \<Rightarrow> state \<Rightarrow> (error + unit) \<times> state" where
  "update P updates setOpts getOpts' this =
     (let (current, this1) = getOpts P getOpts' this;
          merged = apply_updates updates (store this1 current, prototype this1 current);
          this2 = this1\<lparr>store := (store this1)(current := fst merged),
                       prototype := (prototype this1)(current := snd merged)\<rparr>
      in replace P current setOpts this2)"

text \<open>The patch of \<open>delete\<close>: \<open>updates[p] = undefined\<close> for every \<open>p\<close>, on an
  object made by \<open>{}\<close>.\<close>

fun delete_updates :: "string list \<Rightarrow> jsobj \<Rightarrow> jsobj" where
  "delete_updates [] updates = updates"
| "delete_updates (p # props) updates =
     delete_updates props (fst (put (updates, Object_prototype) p Undefined))"

definition delete ::
  "platform \<Rightarrow> string list \<Rightarrow> setopts \<Rightarrow> getopts \<Rightarrow> state \<Rightarrow> (error + unit) \<times> state" where
  "delete P props setOpts getOpts' this =
     update P (delete_updates props []) no_setopts no_getopts this"

section \<open>Notions used in the statements\<close>








text \<open>What a plain value is read back as: a number comes back as its text.\<close>

fun decoded :: "jsval \<Rightarrow> jsval" where
  "decoded (Number x) = Str (decimal x)"
| "decoded v = v"




section \<open>Basic facts\<close>

lemma constructor_default:
  "constructor no_options location =
     Inr \<lparr>shortOpt = False, autoArray = True, p_json = None, p_getters = default_getters,
          p_setters = default_setters, p_lastHash = None, p_lastOpts = None,
          store = (\<lambda>r. []),
          prototype = (\<lambda>r. Object_prototype), next_ref = 0, fragment = location, committed = []\<rparr>"
  by (simp add: constructor_def no_options_def)

lemma obj_get_absent: "name \<notin> fst ` set obj \<Longrightarrow> obj_get obj name = Undefined"
  by (induction obj) auto


subsection \<open>The loop of serialize\<close>

lemma serialize_loop_append:
  "serialize_loop P this aa (xs @ ys) hs df =
     (case serialize_loop P this aa xs hs df of
        Inl e \<Rightarrow> Inl e
      | Inr hs' \<Rightarrow> serialize_loop P this aa ys hs' (df \<or> xs \<noteq> []))"
proof (induction xs arbitrary: hs df)
  case Nil
  then show ?case by simp
next
  case (Cons x xs)
  obtain key val where x: "x = (key, val)" by (cases x)
  show ?case
    by (cases "serialize_value P this aa val") (auto simp: x Cons.IH split: sum.splits)
qed

lemma serialize_loop_throws:
  assumes "serialize_value P this aa val = Inl e"
  shows "serialize_loop P this aa (pre @ (key, val) # post) hs df =
     (case serialize_loop P this aa pre hs df of Inl e' \<Rightarrow> Inl e' | Inr hs' \<Rightarrow> Inl e)"
  using assms by (simp add: serialize_loop_append split: sum.splits)

lemma serialize_value_boolean_disabled:
  assumes "(if b then s_true (p_setters this) else s_false (p_setters this)) = None
           \<or> (if b then s_true (p_setters this) else s_false (p_setters this)) = Some []"
  shows "serialize_value P this aa (Boolean b) =
           Inl (TypeError ''Invalid valid type passed to serialize()'')"
  using assms by (cases b) (auto simp: serialize_value_def O_type_def S_type_def N_type_def)

lemma serialize_value_object_disabled:
  assumes "p_json this \<noteq> Some JSON_OBJ"
  shows "serialize_value P this aa (Object ps) =
           Inl (Error ''Cannot serialize object when JSON is disabled'')"
  using assms by (simp add: serialize_value_def serializeJsonObject_def json_def O_type_def)

section \<open>Properties of serialize\<close>

text \<open>
  C2, as the code has it. A boolean whose literal is switched off (set to \<open>false\<close>, or
  to the empty string) is not written as a bare flag: it passes the two boolean branches,
  is neither an object nor a string or number, and reaches the final \<open>throw\<close>. So
  \<open>serialize\<close> of a mapping that holds such an entry raises the \<open>TypeError\<close>, unless
  an earlier entry has raised first.
\<close>

theorem serialize_boolean_literal_disabled:
  assumes "(if b then s_true (p_setters this) else s_false (p_setters this)) = None
           \<or> (if b then s_true (p_setters this) else s_false (p_setters this)) = Some []"
  shows "serialize P (pre @ (key, Boolean b) # post) setOpts this =
     (case serialize P pre setOpts this of
        Inl e \<Rightarrow> Inl e
      | Inr hashString \<Rightarrow> Inl (TypeError ''Invalid valid type passed to serialize()''))"
  unfolding serialize_def Let_def
  by (rule serialize_loop_throws) (rule serialize_value_boolean_disabled [OF assms])

theorem serialize_boolean_literal_disabled_witness:
  "\<exists>this. constructor (no_options\<lparr>o_setters := Some [(''true'', SFalse)]\<rparr>) [] = Inr this
     \<and> s_true (p_setters this) = None
     \<and> (\<forall>P. serialize P [(''a'', Boolean True)] no_setopts this =
          Inl (TypeError ''Invalid valid type passed to serialize()''))"
proof -
  obtain this
    where c: "constructor (no_options\<lparr>o_setters := Some [(''true'', SFalse)]\<rparr>) [] = Inr this"
    by (simp add: constructor_def no_options_def setSetter_def Let_def)
  then have t: "s_true (p_setters this) = None"
    by (auto simp: constructor_def no_options_def setSetter_def Let_def default_setters_def)
  have "serialize P [(''a'', Boolean True)] no_setopts this =
          Inl (TypeError ''Invalid valid type passed to serialize()'')" for P
    using serialize_boolean_literal_disabled [of True this P "[]" "''a''" "[]" no_setopts] t
    by (simp add: serialize_def)
  with c t show ?thesis by blast
qed

text \<open>
  C2, as stated, fails: with the \<open>true\<close> literal set to \<open>false\<close>, serializing
  \<open>{a: true}\<close> does not yield the bare flag \<open>#a\<close>.
\<close>

theorem serialize_boolean_bare_flag_counterexample:
  "\<exists>this. constructor (no_options\<lparr>o_setters := Some [(''true'', SFalse)]\<rparr>) [] = Inr this
     \<and> (\<forall>P. serialize P [(''a'', Boolean True)] no_setopts this \<noteq> Inr ''#a'')"
  by (simp add: constructor_def no_options_def setSetter_def Let_def default_setters_def
      serialize_def no_setopts_def serialize_value_def O_type_def S_type_def N_type_def)

text \<open>
  C3: with \<open>json: true\<close> the constructor stores the pattern \<open>JSON_ALL\<close>, and
  \<open>serializeJsonObject\<close> compares \<open>this.json\<close>, which is undefined, with it. So
  \<open>serialize\<close> of a mapping with one plain-object value throws instead of writing the
  assignment and the JSON text.
\<close>

theorem serialize_object_json_true_throws:
  "(case constructor (no_options\<lparr>o_json := Some JTrue\<rparr>) location of
      Inl e \<Rightarrow> False
    | Inr this \<Rightarrow>
        p_json this = Some JSON_ALL \<and> serializeJsonArray this \<and>
        serialize P [(key, Object ps)] setOpts this =
          Inl (Error ''Cannot serialize object when JSON is disabled''))"
  by (simp add: constructor_def no_options_def useJson_def serialize_def serialize_value_def
      serializeJsonObject_def serializeJsonArray_def json_def O_type_def Let_def)

text \<open>
  C8: where arrays may be written as JSON and \<open>autoArray\<close> is on, an array whose
  elements are all strings or numbers is written in the flat form, one assignment per
  element, and an array with any other element as the assignment followed by the JSON text
  of the whole array.
\<close>

theorem serialize_autoArray:
  assumes "serializeJsonArray this"
    and "(case so_autoArray setOpts of Some b \<Rightarrow> b | None \<Rightarrow> autoArray this)"
  shows "serialize P [(key, Array array)] setOpts this =
     Inr (''#'' @ key @
       (if list_ex (\<lambda>item. typeof item \<noteq> S_type \<and> typeof item \<noteq> N_type) array
        then s_assign (p_setters this) @ JSON_stringify P (Array array)
        else concat (map (\<lambda>item. s_assign (p_setters this) @ to_string P item) array)))"
proof -
  have flat: "\<not> list_ex (\<lambda>item. typeof item \<noteq> S_type \<and> typeof item \<noteq> N_type) xs \<Longrightarrow>
    serializeArray P a xs = concat (map (\<lambda>item. a @ to_string P item) xs)" for a xs
    by (induction xs) auto
  show ?thesis
    using assms flat [of array "s_assign (p_setters this)"]
    by (simp add: serialize_def serialize_value_def O_type_def Let_def)
qed

theorem serialize_autoArray_witness:
  "\<exists>this. constructor (no_options\<lparr>o_json := Some JTrue, o_autoArray := Some True\<rparr>) [] = Inr this
     \<and> (\<forall>P. serialize P [(''list'', Array [Number 1, Str ''x''])] no_setopts this
              = Inr ''#list=1=x''
          \<and> serialize P [(''list'', Array [Number 1, Object [(''k'', Number 2)]])] no_setopts this
              = Inr (''#list='' @ JSON_stringify P (Array [Number 1, Object [(''k'', Number 2)]])))"
proof -
  obtain this
    where c: "constructor (no_options\<lparr>o_json := Some JTrue, o_autoArray := Some True\<rparr>) [] = Inr this"
    by (simp add: constructor_def no_options_def useJson_def Let_def)
  then have j: "serializeJsonArray this" and a: "autoArray this"
    and s: "s_assign (p_setters this) = ''=''"
    by (auto simp: constructor_def no_options_def useJson_def Let_def serializeJsonArray_def
        default_setters_def)
  have o: "(case so_autoArray no_setopts of Some b \<Rightarrow> b | None \<Rightarrow> autoArray this)"
    using a by (simp add: no_setopts_def)
  have one: "number_to_string P 1 = ''1''" for P
    by (simp add: number_to_string_def safe_integer_def decimal_def digits.simps digit_char_def)
  have "serialize P [(''list'', Array [Number 1, Str ''x''])] no_setopts this = Inr ''#list=1=x''"
    for P
    using serialize_autoArray [OF j o, of P "''list''" "[Number 1, Str ''x'']"]
    by (simp add: s one S_type_def N_type_def)
  moreover have "serialize P [(''list'', Array [Number 1, Object [(''k'', Number 2)]])] no_setopts this
      = Inr (''#list='' @ JSON_stringify P (Array [Number 1, Object [(''k'', Number 2)]]))" for P
    using serialize_autoArray [OF j o, of P "''list''" "[Number 1, Object [(''k'', Number 2)]]"]
    by (simp add: s S_type_def N_type_def)
  ultimately show ?thesis using c by blast
qed

section \<open>Properties of getOpts\<close>

lemma getOpts_hit:
  assumes "p_lastHash this = Some h" and "p_lastOpts this = Some r"
    and "h \<noteq> []" and "h \<noteq> ''#''"
    and "(case go_hash getOpts' of Some h' \<Rightarrow> h' | None \<Rightarrow> getHash this) = h"
  shows "getOpts P getOpts' this = (r, this)"
  using assms by (simp add: getOpts_def Let_def)

lemma getOpts_remembers:
  assumes "(case go_hash getOpts' of Some h' \<Rightarrow> h' | None \<Rightarrow> getHash this) = h"
    and "h \<noteq> []" and "h \<noteq> ''#''"
    and "getOpts P getOpts' this = (r, this')"
  shows "p_lastHash this' = Some h \<and> p_lastOpts this' = Some r \<and> getHash this' = getHash this"
  using assms
  by (auto simp: getOpts_def Let_def store_object_def getHash_def
      split: if_splits prod.splits option.splits)

lemma getOpts_again:
  assumes "s \<noteq> []" and "s \<noteq> ''#''"
    and "(case go_hash first of Some h \<Rightarrow> h | None \<Rightarrow> getHash this) = s"
    and "getOpts P first this = (r, this')"
    and "go_hash second = go_hash first"
  shows "getOpts P second this' = (r, this')"
proof -
  have m: "p_lastHash this' = Some s \<and> p_lastOpts this' = Some r \<and> getHash this' = getHash this"
    using getOpts_remembers [OF assms(3) assms(1) assms(2) assms(4)] .
  have "(case go_hash second of Some h \<Rightarrow> h | None \<Rightarrow> getHash this') = s"
    using assms(3,5) m by (simp split: option.splits)
  with m assms(1,2) show ?thesis
    by (intro getOpts_hit) auto
qed

lemmas eval_getOpts = getOpts_def Let_def getHash_def store_object_def new_object_def split_def
  split_str_def parse_segment_def getVal_def matches_def default_getters_def true_yes_def
  false_no_def clone_def lower_def put_def obj_set_def is_array_index_def is_digit_def

text \<open>
  C4: a call of \<open>getOpts\<close> on a hash string that is neither empty nor \<open>#\<close>,
  followed by a second call on the same string, returns the same object both times (the
  same reference), and the second call changes nothing: it is answered from the cached
  pair and neither parses nor creates an object.
\<close>

theorem getOpts_twice_same_object:
  assumes "s \<noteq> []" and "s \<noteq> ''#''"
    and "(case go_hash getOpts' of Some h \<Rightarrow> h | None \<Rightarrow> getHash this) = s"
    and "getOpts P getOpts' this = (r, this')"
  shows "getOpts P getOpts' this' = (r, this')"
  using assms by (rule getOpts_again) simp

theorem getOpts_twice_same_object_witness:
  "\<exists>this. constructor no_options ''#a=1'' = Inr this \<and>
     (\<forall>P. \<exists>r this'. getOpts P no_getopts this = (r, this')
        \<and> store this' r = [(''a'', Str ''1'')]
        \<and> getOpts P no_getopts this' = (r, this'))"
proof -
  define this where "this = \<lparr>shortOpt = False, autoArray = True, p_json = None,
          p_getters = default_getters, p_setters = default_setters, p_lastHash = None,
          p_lastOpts = None, store = (\<lambda>r. []),
          prototype = (\<lambda>r. Object_prototype), next_ref = 0, fragment = ''#a=1'',
          committed = []\<rparr>"
  have c: "constructor no_options ''#a=1'' = Inr this"
    by (simp add: constructor_default this_def)
  have "\<exists>r this'. getOpts P no_getopts this = (r, this')
        \<and> store this' r = [(''a'', Str ''1'')]
        \<and> getOpts P no_getopts this' = (r, this')" for P
  proof -
    obtain r this' where g: "getOpts P no_getopts this = (r, this')"
      by (cases "getOpts P no_getopts this")
    have h: "(case go_hash no_getopts of Some h \<Rightarrow> h | None \<Rightarrow> getHash this) = ''#a=1''"
      by (simp add: no_getopts_def getHash_def this_def)
    have s: "store this' r = [(''a'', Str ''1'')]"
      using g by (auto simp: eval_getOpts no_getopts_def this_def)
    have "getOpts P no_getopts this' = (r, this')"
      using getOpts_twice_same_object [OF _ _ h g] by simp
    with g s show ?thesis by blast
  qed
  with c show ?thesis by blast
qed

text \<open>
  C9: when the second call comes with other \<open>defaults\<close>, it still returns the cached
  object of the first call and leaves the state, and so that object, as it is; the new
  defaults do not enter the result.
\<close>

theorem getOpts_cache_ignores_defaults:
  assumes "s \<noteq> []" and "s \<noteq> ''#''"
    and "(case go_hash getOpts' of Some h \<Rightarrow> h | None \<Rightarrow> getHash this) = s"
    and "getOpts P getOpts' this = (r, this')"
  shows "getOpts P (getOpts'\<lparr>go_defaults := defaults'\<rparr>) this' = (r, this')"
  using assms by (rule getOpts_again) simp

theorem getOpts_cache_ignores_defaults_witness:
  "\<exists>this. constructor no_options [] = Inr this \<and>
     (\<forall>P. \<exists>r this'. getOpts P (no_getopts\<lparr>go_hash := Some ''#a=1''\<rparr>) this = (r, this')
        \<and> getOpts P (no_getopts\<lparr>go_hash := Some ''#a=1'',
                                  go_defaults := Some [(''z'', Number 9)]\<rparr>) this' = (r, this')
        \<and> store this' r = [(''a'', Str ''1'')])"
proof -
  define this where "this = \<lparr>shortOpt = False, autoArray = True, p_json = None,
          p_getters = default_getters, p_setters = default_setters, p_lastHash = None,
          p_lastOpts = None, store = (\<lambda>r. []),
          prototype = (\<lambda>r. Object_prototype), next_ref = 0, fragment = [],
          committed = []\<rparr>"
  have c: "constructor no_options [] = Inr this"
    by (simp add: constructor_default this_def)
  let ?g = "no_getopts\<lparr>go_hash := Some ''#a=1''\<rparr>"
  have "\<exists>r this'. getOpts P ?g this = (r, this')
        \<and> getOpts P (no_getopts\<lparr>go_hash := Some ''#a=1'',
                                  go_defaults := Some [(''z'', Number 9)]\<rparr>) this' = (r, this')
        \<and> store this' r = [(''a'', Str ''1'')]" for P
  proof -
    obtain r this' where g: "getOpts P ?g this = (r, this')"
      by (cases "getOpts P ?g this")
    have h: "(case go_hash ?g of Some h \<Rightarrow> h | None \<Rightarrow> getHash this) = ''#a=1''"
      by simp
    have s: "store this' r = [(''a'', Str ''1'')]"
      using g by (auto simp: eval_getOpts no_getopts_def this_def)
    have "getOpts P (?g\<lparr>go_defaults := Some [(''z'', Number 9)]\<rparr>) this' = (r, this')"
      using getOpts_cache_ignores_defaults [OF _ _ h g] by simp
    with g s show ?thesis by simp
  qed
  with c show ?thesis by blast
qed

section \<open>Properties of getOpt\<close>

text \<open>
  Where reading \<open>hashOpts[name]\<close> gives \<open>undefined\<close> (the mapping has no such
  property, and its prototype chain has none either), \<open>getOpt\<close> with the short-option
  fallback on returns the name of the only entry when the mapping is a single entry with
  the value \<open>null\<close>, and the default when the mapping has more than one entry.
\<close>

lemma getOpt_shortOpt_fallback:
  assumes "(case go_shortOpt getOpts' of Some b \<Rightarrow> b | None \<Rightarrow> shortOpt this)"
    and "getOpts P getOpts' this = (r, this')"
    and "get P (store this' r, prototype this' r) name = Undefined"
  shows "(\<forall>key. store this' r = [(key, Null)] \<longrightarrow> getOpt P name getOpts' this = (Str key, this'))
       \<and> (1 < length (store this' r) \<longrightarrow>
            getOpt P name getOpts' this = (go_default getOpts', this'))"
  using assms by (auto simp: getOpt_def Let_def obj_keys_def get_def)

text \<open>
  C7: the fallback is as the claim says for a name such as \<open>mode\<close>. But the test
  \<open>hashOpts[name] !== undefined\<close> reads through the prototype chain, so for a name that
  \<open>Object.prototype\<close> defines, such as \<open>constructor\<close>, \<open>getOpt\<close> returns the
  inherited function, whatever the fragment holds: neither the name of the single flag of
  \<open>#fast\<close> nor the default against \<open>#a;b\<close>.
\<close>

theorem getOpt_inherited_name:
  "\<exists>this. constructor no_options [] = Inr this \<and>
     (\<forall>P. fst (getOpt P ''mode'' \<lparr>go_defaults = None, go_hash = Some ''#fast'',
                go_shortOpt = Some True, go_default = Str ''none''\<rparr> this) = Str ''fast''
        \<and> fst (getOpt P ''mode'' \<lparr>go_defaults = None, go_hash = Some ''#a;b'',
                go_shortOpt = Some True, go_default = Str ''none''\<rparr> this) = Str ''none''
        \<and> fst (getOpt P ''constructor'' \<lparr>go_defaults = None, go_hash = Some ''#fast'',
                go_shortOpt = Some True, go_default = Str ''none''\<rparr> this)
              = Function ''Object.prototype.constructor''
        \<and> fst (getOpt P ''constructor'' \<lparr>go_defaults = None, go_hash = Some ''#a;b'',
                go_shortOpt = Some True, go_default = Str ''none''\<rparr> this)
              = Function ''Object.prototype.constructor'')"
proof -
  define this where "this = \<lparr>shortOpt = False, autoArray = True, p_json = None,
          p_getters = default_getters, p_setters = default_setters, p_lastHash = None,
          p_lastOpts = None, store = (\<lambda>r. []),
          prototype = (\<lambda>r. Object_prototype), next_ref = 0, fragment = [], committed = []\<rparr>"
  have c: "constructor no_options [] = Inr this"
    by (simp add: constructor_default this_def)
  let ?fast = "\<lparr>go_defaults = None, go_hash = Some ''#fast'',
                go_shortOpt = Some True, go_default = Str ''none''\<rparr>"
  let ?ab = "\<lparr>go_defaults = None, go_hash = Some ''#a;b'',
                go_shortOpt = Some True, go_default = Str ''none''\<rparr>"
  have f: "getOpts P ?fast this = (r, this') \<Longrightarrow>
             store this' r = [(''fast'', Null)] \<and> prototype this' r = Object_prototype"
    for P r this'
    by (auto simp: eval_getOpts this_def)
  have ab: "getOpts P ?ab this = (r, this') \<Longrightarrow>
             store this' r = [(''a'', Null), (''b'', Null)] \<and> prototype this' r = Object_prototype"
    for P r this'
    by (auto simp: eval_getOpts this_def)
  have 1: "fst (getOpt P ''mode'' ?fast this) = Str ''fast''" for P
    using f [of P] by (cases "getOpts P ?fast this")
      (simp add: getOpt_def get_def obj_keys_def object_prototype_get_def
        Object_prototype_functions_def)
  have 2: "fst (getOpt P ''mode'' ?ab this) = Str ''none''" for P
    using ab [of P] by (cases "getOpts P ?ab this")
      (simp add: getOpt_def get_def obj_keys_def object_prototype_get_def
        Object_prototype_functions_def)
  have 3: "fst (getOpt P ''constructor'' ?fast this) = Function ''Object.prototype.constructor''"
    for P
    using f [of P] by (cases "getOpts P ?fast this")
      (simp add: getOpt_def get_def obj_keys_def object_prototype_get_def
        Object_prototype_functions_def)
  have 4: "fst (getOpt P ''constructor'' ?ab this) = Function ''Object.prototype.constructor''"
    for P
    using ab [of P] by (cases "getOpts P ?ab this")
      (simp add: getOpt_def get_def obj_keys_def object_prototype_get_def
        Object_prototype_functions_def)
  from c 1 2 3 4 show ?thesis by blast
qed

section \<open>Properties of replace, update and delete\<close>

text \<open>
  C5: when JSON is off and the mapping given to \<open>replace\<close> holds a plain-object
  value, \<open>replace\<close> throws and the state is what it was: nothing is committed to the
  sink, and \<open>_lastHash\<close> and \<open>_lastOpts\<close> are unchanged.
\<close>

theorem replace_unsupported_object_atomic:
  assumes "p_json this = None" and "(key, Object ps) \<in> set (store this reps)"
  shows "\<exists>e. replace P reps setOpts this = (Inl e, this)"
proof -
  obtain pre post where sp: "store this reps = pre @ (key, Object ps) # post"
    using assms(2) by (auto dest: split_list)
  have "serialize_value P this aa (Object ps) =
          Inl (Error ''Cannot serialize object when JSON is disabled'')" for aa
    using assms(1) by (simp add: serialize_value_object_disabled)
  then have "\<exists>e. serialize P (for_in (store this reps, prototype this reps)) setOpts this = Inl e"
    unfolding serialize_def Let_def for_in_def fst_conv sp
    by (simp add: serialize_loop_throws split: sum.splits)
  then show ?thesis
    by (auto simp: replace_def)
qed

theorem replace_unsupported_object_atomic_witness:
  "\<exists>this. constructor no_options [] = Inr this \<and>
     (\<forall>P. \<exists>reps this1. new_object [(''x'', Object [(''k'', Number 1)])] this = (reps, this1)
        \<and> replace P reps no_setopts this1 =
            (Inl (Error ''Cannot serialize object when JSON is disabled''), this1)
        \<and> committed this1 = [] \<and> p_lastHash this1 = None \<and> p_lastOpts this1 = None)"
proof -
  define this where "this = \<lparr>shortOpt = False, autoArray = True, p_json = None,
          p_getters = default_getters, p_setters = default_setters, p_lastHash = None,
          p_lastOpts = None, store = (\<lambda>r. []),
          prototype = (\<lambda>r. Object_prototype), next_ref = 0, fragment = [], committed = []\<rparr>"
  have c: "constructor no_options [] = Inr this"
    by (simp add: constructor_default this_def)
  obtain reps this1 where n: "new_object [(''x'', Object [(''k'', Number 1)])] this = (reps, this1)"
    by (cases "new_object [(''x'', Object [(''k'', Number 1)])] this")
  have j: "p_json this1 = None" and s: "store this1 reps = [(''x'', Object [(''k'', Number 1)])]"
    and rest: "committed this1 = [] \<and> p_lastHash this1 = None \<and> p_lastOpts this1 = None"
    and p: "prototype this1 reps = Object_prototype"
    using n by (auto simp: new_object_def store_object_def this_def)
  have "replace P reps no_setopts this1 =
            (Inl (Error ''Cannot serialize object when JSON is disabled''), this1)" for P
  proof -
    obtain e where e: "replace P reps no_setopts this1 = (Inl e, this1)"
      using replace_unsupported_object_atomic [OF j, of "''x''" "[(''k'', Number 1)]" reps P no_setopts] s
      by auto
    then show ?thesis
      using j by (simp add: replace_def s p for_in_def serialize_def
          serialize_value_object_disabled split: sum.splits)
  qed
  with c n rest show ?thesis by blast
qed

text \<open>
  C10: \<open>delete\<close> does not use its two option arguments: whatever they are, it does
  what it does with both omitted, namely \<open>update\<close> with the all-remove patch and no
  options.
\<close>

theorem delete_ignores_options:
  "delete P props setOpts getOpts' this = delete P props no_setopts no_getopts this
   \<and> delete P props setOpts getOpts' this =
       update P (delete_updates props []) no_setopts no_getopts this"
  by (simp add: delete_def)

section \<open>The round trip of serialize and getOpts\<close>

subsection \<open>Splitting what was joined\<close>





subsection \<open>The text of a safe integer\<close>







subsection \<open>Serializing a plain mapping\<close>




subsection \<open>Defining properties in their order\<close>






subsection \<open>Parsing the segments of a plain mapping\<close>













text \<open>
  The name \<open>__proto__\<close> is left out of the plain mappings because it does not come
  back: \<open>{"__proto__": "x", a: null}\<close>, the first a property of the object itself,
  serializes to \<open>#__proto__=x;a\<close>, and \<open>getOpts\<close> assigns the string to the
  accessor of the new object, which ignores it.
\<close>

lemma round_trip_proto_name_lost:
  "\<exists>this. constructor no_options [] = Inr this \<and>
     (\<forall>P. serialize P [(''__proto__'', Str ''x''), (''a'', Null)] no_setopts this
              = Inr ''#__proto__=x;a''
        \<and> (\<exists>r this'. getOpts P (no_getopts\<lparr>go_hash := Some ''#__proto__=x;a''\<rparr>) this = (r, this')
              \<and> store this' r = [(''a'', Null)] \<and> prototype this' r = Object_prototype))"
proof -
  define this where "this = \<lparr>shortOpt = False, autoArray = True, p_json = None,
          p_getters = default_getters, p_setters = default_setters, p_lastHash = None,
          p_lastOpts = None, store = (\<lambda>r. []),
          prototype = (\<lambda>r. Object_prototype), next_ref = 0, fragment = [], committed = []\<rparr>"
  have c: "constructor no_options [] = Inr this"
    by (simp add: constructor_default this_def)
  have "serialize P [(''__proto__'', Str ''x''), (''a'', Null)] no_setopts this
              = Inr ''#__proto__=x;a''
        \<and> (\<exists>r this'. getOpts P (no_getopts\<lparr>go_hash := Some ''#__proto__=x;a''\<rparr>) this = (r, this')
              \<and> store this' r = [(''a'', Null)] \<and> prototype this' r = Object_prototype)" for P
  proof -
    have ser: "serialize P [(''__proto__'', Str ''x''), (''a'', Null)] no_setopts this
                 = Inr ''#__proto__=x;a''"
      by (simp add: serialize_def no_setopts_def serialize_value_def this_def default_setters_def
          O_type_def S_type_def N_type_def)
    obtain r this' where g: "getOpts P (no_getopts\<lparr>go_hash := Some ''#__proto__=x;a''\<rparr>) this = (r, this')"
      by (cases "getOpts P (no_getopts\<lparr>go_hash := Some ''#__proto__=x;a''\<rparr>) this")
    have "store this' r = [(''a'', Null)] \<and> prototype this' r = Object_prototype"
      using g by (auto simp: eval_getOpts no_getopts_def this_def)
    with ser g show ?thesis by simp
  qed
  with c show ?thesis by blast
qed

section \<open>Properties of update\<close>

subsection \<open>What an assignment and a removal leave alone\<close>
















subsection \<open>What the entries are read back as\<close>



subsection \<open>What getOpts leaves alone\<close>








text \<open>
  A patch entry named \<open>__proto__\<close> is an assignment to the accessor: with a string as
  its value it changes nothing, so the name is not set to the patch's value.
\<close>

lemma apply_updates_proto_dropped:
  "apply_updates [(''__proto__'', Str ''x'')] ([(''a'', Str ''1'')], Object_prototype)
     = ([(''a'', Str ''1'')], Object_prototype)"
  by (simp add: put_def)

end
